theory Spec2Isabelle
  imports Complex_Main
begin

section \<open>Energies\<close>

text \<open>
  \<^verbatim>\<open>get_potential_energy()\<close> returns a float64. A finite float is modelled by the real
  number it denotes and the arithmetic on it is exact; NaN is a value of its own, since
  the sign filter of \<^verbatim>\<open>filter_local_minima\<close> is what keeps it away from the logarithm.
  Infinities and the rounding error of float64 arithmetic are outside the model.
\<close>

datatype energy = NaN | Fin real

text \<open>The comparison \<^verbatim>\<open><\<close> of floats: false as soon as one side is NaN.\<close>

fun lt :: "energy \<Rightarrow> energy \<Rightarrow> bool" where
  "lt (Fin x) (Fin y) = (x < y)"
| "lt _ _ = False"

text \<open>The comparison \<^verbatim>\<open><=\<close> of floats, with the same convention.\<close>

fun le :: "energy \<Rightarrow> energy \<Rightarrow> bool" where
  "le (Fin x) (Fin y) = (x \<le> y)"
| "le _ _ = False"

text \<open>
  The order in which numpy sorts floats (\<^verbatim>\<open>np.unique\<close> sorts its argument): the order of the
  reals, with NaN after every number.
\<close>

instantiation energy :: linorder
begin

fun less_eq_energy :: "energy \<Rightarrow> energy \<Rightarrow> bool" where
  "less_eq_energy (Fin x) (Fin y) = (x \<le> y)"
| "less_eq_energy _ NaN = True"
| "less_eq_energy NaN (Fin y) = False"

definition less_energy :: "energy \<Rightarrow> energy \<Rightarrow> bool" where
  "less_energy a b = (a \<le> b \<and> \<not> b \<le> a)"

instance
proof
  fix x y z :: energy
  show "(x < y) = (x \<le> y \<and> \<not> y \<le> x)"
    by (simp add: less_energy_def)
  show "x \<le> x"
    by (cases x) simp_all
  show "x \<le> y \<Longrightarrow> y \<le> z \<Longrightarrow> x \<le> z"
    by (cases x; cases y; cases z) simp_all
  show "x \<le> y \<Longrightarrow> y \<le> x \<Longrightarrow> x = y"
    by (cases x; cases y) simp_all
  show "x \<le> y \<or> y \<le> x"
    by (cases x; cases y) auto
qed

end

section \<open>Structures\<close>

text \<open>
  An \<^verbatim>\<open>ase.atoms.Atoms\<close> object is opaque to this program: only its potential energy is
  read. \<open>geometry\<close> stands for everything else the object holds.
\<close>

record atoms =
  geometry :: nat
  get_potential_energy :: energy

section \<open>Sorting by a key\<close>

text \<open>
  \<^verbatim>\<open>sorted(atoms, key=...)\<close> is a stable sort that compares keys with \<^verbatim>\<open><\<close> only.
  It is modelled by the stable insertion sort with that comparison: an element goes in front
  of the first one whose key is not less than its own. On keys that \<^verbatim>\<open><\<close> orders totally,
  that is without NaN, every stable sort returns this list. With NaN among the keys the
  result of a comparison sort depends on the comparisons it makes; a list in which no
  element is less than its predecessor is one ascending run for CPython's sort, which
  returns it as it is, and so does this one.
\<close>

fun insert_sorted :: "('a \<Rightarrow> energy) \<Rightarrow> 'a \<Rightarrow> 'a list \<Rightarrow> 'a list" where
  "insert_sorted key x [] = [x]"
| "insert_sorted key x (y # ys) =
     (if lt (key y) (key x) then y # insert_sorted key x ys else x # y # ys)"

definition sorted_by :: "('a \<Rightarrow> energy) \<Rightarrow> 'a list \<Rightarrow> 'a list" where
  "sorted_by key xs = foldr (insert_sorted key) xs []"

section \<open>Rounding\<close>

text \<open>The floor of the decimal logarithm of the absolute value of a real number.\<close>

definition floor_log10 :: "real \<Rightarrow> int" where
  "floor_log10 x = \<lfloor>log 10 \<bar>x\<bar>\<rfloor>"

text \<open>
  \<^verbatim>\<open>np.floor(np.log10(np.abs(e))).astype(np.int32)\<close> for one element. The float operations
  turn NaN into NaN and zero into minus infinity, and numpy does not define what the cast
  to int32 makes of either; the model leaves both results open. The sign filter is what
  keeps NaN and zero away from this line. The order of magnitude of a float64 lies between
  -324 and 308, so the int32 holds it.
\<close>

fun order_of_magnitude :: "energy \<Rightarrow> int" where
  "order_of_magnitude (Fin x) = (if x = 0 then undefined else floor_log10 x)"
| "order_of_magnitude NaN = undefined"

text \<open>Rounding to the nearest integer, a tie going to the even neighbour.\<close>

definition rint :: "real \<Rightarrow> int" where
  "rint y =
     (let f = \<lfloor>y\<rfloor>; r = y - of_int f
      in if r < 1 / 2 then f
         else if 1 / 2 < r then f + 1
         else if even f then f else f + 1)"

text \<open>
  A real number rounded half to even at \<open>d\<close> decimal places, where \<open>d\<close> may be negative.
\<close>

definition round_decimals :: "real \<Rightarrow> int \<Rightarrow> real" where
  "round_decimals x d = of_int (rint (x * 10 powi d)) / 10 powi d"

text \<open>\<^verbatim>\<open>round(energy, d)\<close> on a float64 scalar: NaN stays NaN.\<close>

fun py_round :: "energy \<Rightarrow> int \<Rightarrow> energy" where
  "py_round (Fin x) d = Fin (round_decimals x d)"
| "py_round NaN d = NaN"

text \<open>
  The rounded energy of one structure: the four steps of the rounding on a single energy.
\<close>

definition round_energy :: "int \<Rightarrow> energy \<Rightarrow> energy" where
  "round_energy significant_figures energy =
     py_round energy (- (order_of_magnitude energy + 1) + significant_figures)"

section \<open>Unique values and their first indices\<close>

primrec first_index :: "'a \<Rightarrow> 'a list \<Rightarrow> nat" where
  "first_index v [] = 0"
| "first_index v (x # xs) = (if x = v then 0 else Suc (first_index v xs))"

text \<open>
  The second component of \<^verbatim>\<open>np.unique(rounded, return_index=True)\<close>: for each distinct value,
  in ascending order of the values, the index of its first occurrence.
\<close>

definition unique_indexes :: "energy list \<Rightarrow> nat list" where
  "unique_indexes rounded = map (\<lambda>v. first_index v rounded) (sort (remdups rounded))"

section \<open>\<^verbatim>\<open>filter_local_minima\<close>\<close>

text \<open>Indexing an array with a boolean mask of the same length.\<close>

definition mask_select :: "'a list \<Rightarrow> bool list \<Rightarrow> 'a list" where
  "mask_select xs keep = map fst (filter snd (zip xs keep))"

text \<open>Indexing an array with an array of indices.\<close>

definition take_indexes :: "'a list \<Rightarrow> nat list \<Rightarrow> 'a list" where
  "take_indexes xs indexes = map (\<lambda>i. xs ! i) indexes"

text \<open>
  The function, statement by statement. \<^verbatim>\<open>significant_figures\<close> is a Python integer and the
  sums with it are exact. The indices \<^verbatim>\<open>np.unique\<close> returns are positions of \<^verbatim>\<open>rounded\<close>,
  which is as long as \<^verbatim>\<open>_atoms\<close>, so the last indexing stays in range. The last assignment
  to \<^verbatim>\<open>potential_energies\<close> is never read and is left out.
\<close>

definition filter_local_minima :: "atoms list \<Rightarrow> int \<Rightarrow> atoms list" where
  "filter_local_minima atoms significant_figures =
     (let sorted_atoms = sorted_by get_potential_energy atoms;
          potential_energies = map get_potential_energy sorted_atoms;
          indexes = map (\<lambda>e. lt e (Fin 0)) potential_energies;
          kept_atoms = mask_select sorted_atoms indexes;
          potential_energies = mask_select potential_energies indexes;
          order_of_magnitudes = map order_of_magnitude potential_energies;
          positions_msd = map (\<lambda>order. - (order + 1)) order_of_magnitudes;
          rounding = map (\<lambda>position. position + significant_figures) positions_msd;
          rounded = map (\<lambda>(energy, d). py_round energy d) (zip potential_energies rounding);
          indexes = unique_indexes rounded
      in take_indexes kept_atoms indexes)"

text \<open>
  The array of structures the sign filter leaves. Its energies are the arguments of the
  logarithm and of the rounding.
\<close>

definition negative_atoms :: "atoms list \<Rightarrow> atoms list" where
  "negative_atoms atoms =
     (let sorted_atoms = sorted_by get_potential_energy atoms;
          potential_energies = map get_potential_energy sorted_atoms;
          indexes = map (\<lambda>e. lt e (Fin 0)) potential_energies
      in mask_select sorted_atoms indexes)"

section \<open>Rounding to significant figures, as the specification words it\<close>



section \<open>\<^verbatim>\<open>filter_trajectory\<close>\<close>

text \<open>
  Python values that reach the parameters of the driver: \<^verbatim>\<open>None\<close>, a string, an integer.
\<close>

datatype pyval = PyNone | PyStr string | PyInt int

datatype error = FileAccessError | TypeError | WriteError

text \<open>
  Modelled from the spec: the trajectory library (\<^verbatim>\<open>ase.io.trajectory.Trajectory\<close>) is an
  external collaborator, ``read ordered sequence of structures from a file'' and ``write
  ordered sequence of structures to a file''. A missing or unreadable input path and an
  unwritable output path fail with \<open>FileAccessError\<close>; a write may fail midway and what was
  written stays. The world holds the trajectory files, the paths that can be opened for
  writing, the number of structures the storage still takes, and the handles that are open.
\<close>

record world =
  files :: "string \<Rightarrow> atoms list option"
  writable :: "string \<Rightarrow> bool"
  free_space :: nat
  open_handles :: "string list"

definition open_read :: "string \<Rightarrow> world \<Rightarrow> error + atoms list \<times> world" where
  "open_read path w =
     (case files w path of
        None \<Rightarrow> Inl FileAccessError
      | Some contents \<Rightarrow> Inr (contents, w\<lparr>open_handles := path # open_handles w\<rparr>))"

definition open_write :: "string \<Rightarrow> world \<Rightarrow> error + world" where
  "open_write path w =
     (if writable w path
      then Inr (w\<lparr>files := (files w)(path \<mapsto> []), open_handles := path # open_handles w\<rparr>)
      else Inl FileAccessError)"

definition trajectory_write :: "string \<Rightarrow> atoms \<Rightarrow> world \<Rightarrow> error + world" where
  "trajectory_write path a w =
     (if free_space w = 0 then Inl WriteError
      else Inr (w\<lparr>files := (files w)(path \<mapsto> (case files w path of None \<Rightarrow> [] | Some xs \<Rightarrow> xs) @ [a]),
                   free_space := free_space w - 1\<rparr>))"

definition trajectory_close :: "string \<Rightarrow> world \<Rightarrow> world" where
  "trajectory_close path w = w\<lparr>open_handles := remove1 path (open_handles w)\<rparr>"

text \<open>
  \<^verbatim>\<open>filter_local_minima\<close> called with whatever Python value the caller passes as
  \<^verbatim>\<open>significant_figures\<close>. Only \<^verbatim>\<open>positions_msd + significant_figures\<close> looks at it: adding a
  string to the integer array raises, adding \<^verbatim>\<open>None\<close> raises at the first element, so not
  when the array is empty.
\<close>

definition filter_local_minima_call :: "atoms list \<Rightarrow> pyval \<Rightarrow> error + atoms list" where
  "filter_local_minima_call atoms significant_figures =
     (case significant_figures of
        PyInt n \<Rightarrow> Inr (filter_local_minima atoms n)
      | PyStr s \<Rightarrow> Inl TypeError
      | PyNone \<Rightarrow> (if negative_atoms atoms = [] then Inr [] else Inl TypeError))"

text \<open>The loop \<^verbatim>\<open>for a in atoms: trajectory.write(a)\<close>; the first error ends it.\<close>

fun write_all :: "string \<Rightarrow> atoms list \<Rightarrow> world \<Rightarrow> error option \<times> world" where
  "write_all path [] w = (None, w)"
| "write_all path (a # atoms) w =
     (case trajectory_write path a w of
        Inl e \<Rightarrow> (Some e, w)
      | Inr w' \<Rightarrow> write_all path atoms w')"

text \<open>
  The driver. The result is the error that escaped, if any, and the world it leaves. Nothing
  catches an error, so the statements after the one that raised do not run.
\<close>

definition filter_trajectory :: "string \<Rightarrow> pyval \<Rightarrow> string option \<Rightarrow> world \<Rightarrow> error option \<times> world" where
  "filter_trajectory input significant_figures output w =
     (let output = (case output of None \<Rightarrow> input | Some path \<Rightarrow> path)
      in case open_read input w of
           Inl e \<Rightarrow> (Some e, w)
         | Inr (trajectory, w1) \<Rightarrow>
             (case filter_local_minima_call trajectory significant_figures of
                Inl e \<Rightarrow> (Some e, w1)
              | Inr atoms \<Rightarrow>
                  (let w2 = trajectory_close input w1
                   in case open_write output w2 of
                        Inl e \<Rightarrow> (Some e, w2)
                      | Inr w3 \<Rightarrow>
                          (case write_all output atoms w3 of
                             (Some e, w4) \<Rightarrow> (Some e, w4)
                           | (None, w4) \<Rightarrow> (None, trajectory_close output w4)))))"

section \<open>The command line\<close>

text \<open>The namespace \<^verbatim>\<open>parse_args\<close> returns, which \<^verbatim>\<open>main\<close> receives as keyword arguments.\<close>

record arguments =
  arg_input :: string
  arg_output :: "string option"
  arg_significant_figures :: int

text \<open>
  The values a call of \<^verbatim>\<open>filter_trajectory(input, significant_figures, output=None)\<close> binds to
  its three parameters.
\<close>

record binding =
  bound_input :: pyval
  bound_significant_figures :: pyval
  bound_output :: pyval

text \<open>A call with three positional arguments binds them in the order of the signature.\<close>

definition call_filter_trajectory :: "pyval \<Rightarrow> pyval \<Rightarrow> pyval \<Rightarrow> binding" where
  "call_filter_trajectory first second third =
     \<lparr>bound_input = first, bound_significant_figures = second, bound_output = third\<rparr>"

definition optional :: "string option \<Rightarrow> pyval" where
  "optional v = (case v of None \<Rightarrow> PyNone | Some s \<Rightarrow> PyStr s)"

text \<open>
  \<^verbatim>\<open>main\<close>: \<^verbatim>\<open>filter_trajectory(kwargs.get('input'), kwargs.get('output', None),
  kwargs.get('significant_figures', 2))\<close>. The namespace always holds the three keys, so the
  defaults of \<^verbatim>\<open>get\<close> are never used.
\<close>

definition main :: "arguments \<Rightarrow> binding" where
  "main kwargs =
     call_filter_trajectory (PyStr (arg_input kwargs)) (optional (arg_output kwargs))
       (PyInt (arg_significant_figures kwargs))"

section \<open>Facts about the rounding\<close>

lemma floor_log10_bounds:
  assumes "x \<noteq> 0"
  shows "10 powi floor_log10 x \<le> \<bar>x\<bar>" and "\<bar>x\<bar> < 10 powi (floor_log10 x + 1)"
proof -
  from assms have pos: "0 < \<bar>x\<bar>" by simp
  have "(10::real) powr of_int (floor_log10 x) \<le> \<bar>x\<bar>
      \<and> \<bar>x\<bar> < 10 powr of_int (floor_log10 x + 1)"
    using floor_log_eq_powr_iff [of "\<bar>x\<bar>" 10 "floor_log10 x"] pos
    by (simp add: floor_log10_def)
  then show "10 powi floor_log10 x \<le> \<bar>x\<bar>" and "\<bar>x\<bar> < 10 powi (floor_log10 x + 1)"
    using powr_real_of_int' [of 10 "floor_log10 x"]
      powr_real_of_int' [of 10 "floor_log10 x + 1"]
    by simp_all
qed

lemma floor_log10_eqI:
  assumes "10 powi k \<le> \<bar>x\<bar>" and "\<bar>x\<bar> < 10 powi (k + 1)"
  shows "floor_log10 x = k"
proof -
  have "0 < (10::real) powi k" by simp
  with assms have pos: "0 < \<bar>x\<bar>" by linarith
  have "(10::real) powr of_int k \<le> \<bar>x\<bar> \<and> \<bar>x\<bar> < 10 powr of_int (k + 1)"
    using assms powr_real_of_int' [of 10 k] powr_real_of_int' [of 10 "k + 1"] by simp
  then show ?thesis
    using floor_log_eq_powr_iff [of "\<bar>x\<bar>" 10 k] pos
    by (simp add: floor_log10_def)
qed

lemma floor_log10_mono:
  assumes "0 < \<bar>x\<bar>" and "\<bar>x\<bar> \<le> \<bar>y\<bar>"
  shows "floor_log10 x \<le> floor_log10 y"
  unfolding floor_log10_def using assms
  by (intro floor_mono) (simp add: log_le_cancel_iff)

lemma rint_of_int: "rint (of_int n) = n"
  by (simp add: rint_def)

lemma rint_cases: "rint y = \<lfloor>y\<rfloor> \<or> rint y = \<lfloor>y\<rfloor> + 1"
  by (simp add: rint_def Let_def)

lemma rint_mono:
  assumes "y \<le> z"
  shows "rint y \<le> rint z"
proof (cases "\<lfloor>y\<rfloor> = \<lfloor>z\<rfloor>")
  case True
  with assms show ?thesis
    by (auto simp: rint_def Let_def)
next
  case False
  with assms have "\<lfloor>y\<rfloor> + 1 \<le> \<lfloor>z\<rfloor>"
    using floor_mono [of y z] by linarith
  moreover have "rint y \<le> \<lfloor>y\<rfloor> + 1" using rint_cases [of y] by linarith
  moreover have "\<lfloor>z\<rfloor> \<le> rint z" using rint_cases [of z] by linarith
  ultimately show ?thesis by linarith
qed

lemma round_decimals_mono: "x \<le> y \<Longrightarrow> round_decimals x d \<le> round_decimals y d"
  unfolding round_decimals_def
  by (intro divide_right_mono) (simp_all add: rint_mono mult_right_mono)

lemma round_energy_Fin:
  "x \<noteq> 0 \<Longrightarrow> round_energy sf (Fin x) = Fin (round_decimals x (sf - 1 - floor_log10 x))"
  by (simp add: round_energy_def algebra_simps)

lemma round_energy_NaN: "round_energy sf NaN = NaN"
  by (simp add: round_energy_def)

lemma round_decimals_upper:
  assumes "x < 0" and "0 < sf"
  shows "round_decimals x (sf - 1 - floor_log10 x) \<le> - (10 powi floor_log10 x)"
proof -
  let ?k = "floor_log10 x" and ?d = "sf - 1 - floor_log10 x"
  from assms have "10 powi ?k \<le> - x"
    using floor_log10_bounds(1) [of x] by simp
  then have "x * 10 powi ?d \<le> - (10 powi ?k) * 10 powi ?d"
    by (intro mult_right_mono) simp_all
  also have "- (10 powi ?k) * 10 powi ?d = - ((10::real) powi (sf - 1))"
    by (simp add: power_int_add [symmetric])
  finally have "x * 10 powi ?d \<le> of_int (- (10 ^ nat (sf - 1)))"
    using assms by (simp add: power_int_def)
  then have "rint (x * 10 powi ?d) \<le> - (10 ^ nat (sf - 1))"
    using rint_mono rint_of_int by metis
  then have "real_of_int (rint (x * 10 powi ?d)) \<le> of_int (- (10 ^ nat (sf - 1)))"
    by (simp only: of_int_le_iff)
  also have "\<dots> = - (10 powi (sf - 1))"
    using assms by (simp add: power_int_def)
  finally have "real_of_int (rint (x * 10 powi ?d)) \<le> - (10 powi (sf - 1))" .
  then have "round_decimals x ?d \<le> - (10 powi (sf - 1)) / 10 powi ?d"
    unfolding round_decimals_def by (intro divide_right_mono) simp_all
  also have "- ((10::real) powi (sf - 1)) / 10 powi ?d = - (10 powi ?k)"
    by (simp add: power_int_diff [symmetric] flip: power_int_minus)
  finally show ?thesis .
qed

lemma round_decimals_lower:
  assumes "x < 0" and "0 < sf"
  shows "- (10 powi (floor_log10 x + 1)) \<le> round_decimals x (sf - 1 - floor_log10 x)"
proof -
  let ?k = "floor_log10 x" and ?d = "sf - 1 - floor_log10 x"
  from assms have "- (10 powi (?k + 1)) \<le> x"
    using floor_log10_bounds(2) [of x] by simp
  then have "- (10 powi (?k + 1)) * 10 powi ?d \<le> x * 10 powi ?d"
    by (intro mult_right_mono) simp_all
  moreover have "- (10 powi (?k + 1)) * 10 powi ?d = - ((10::real) powi sf)"
    by (simp add: power_int_add [symmetric])
  moreover have pw: "- ((10::real) powi sf) = of_int (- (10 ^ nat sf))"
    using assms by (simp add: power_int_def)
  ultimately have "of_int (- (10 ^ nat sf)) \<le> x * 10 powi ?d"
    by simp
  then have "- (10 ^ nat sf) \<le> rint (x * 10 powi ?d)"
    using rint_mono rint_of_int by metis
  then have "of_int (- (10 ^ nat sf)) \<le> real_of_int (rint (x * 10 powi ?d))"
    by (simp only: of_int_le_iff)
  then have "- (10 powi sf) \<le> real_of_int (rint (x * 10 powi ?d))"
    by (simp only: pw)
  then have "- (10 powi sf) / 10 powi ?d \<le> round_decimals x ?d"
    unfolding round_decimals_def by (intro divide_right_mono) simp_all
  moreover have "- ((10::real) powi sf) / 10 powi ?d = - (10 powi (?k + 1))"
    by (simp add: power_int_diff [symmetric] add.commute flip: power_int_minus)
  ultimately show ?thesis by simp
qed

lemma round_sig_mono:
  assumes "x \<le> y" and "y < 0" and "0 < sf"
  shows "round_decimals x (sf - 1 - floor_log10 x) \<le> round_decimals y (sf - 1 - floor_log10 y)"
proof (cases "floor_log10 x = floor_log10 y")
  case True
  with assms show ?thesis by (simp add: round_decimals_mono)
next
  case False
  have "floor_log10 y \<le> floor_log10 x"
    using assms by (intro floor_log10_mono) simp_all
  with False have "floor_log10 y + 1 \<le> floor_log10 x" by simp
  then have "(10::real) powi (floor_log10 y + 1) \<le> 10 powi floor_log10 x"
    by (intro power_int_increasing) simp_all
  moreover have "round_decimals x (sf - 1 - floor_log10 x) \<le> - (10 powi floor_log10 x)"
    using assms by (intro round_decimals_upper) simp_all
  moreover have "- (10 powi (floor_log10 y + 1)) \<le> round_decimals y (sf - 1 - floor_log10 y)"
    using assms by (intro round_decimals_lower) simp_all
  ultimately show ?thesis by linarith
qed

section \<open>Facts about sorting, masks and unique values\<close>

lemma lt_zero_iff: "lt e (Fin 0) \<longleftrightarrow> (\<exists>x. e = Fin x \<and> x < 0)"
  by (cases e) simp_all

lemma lt_iff_less: "a \<noteq> NaN \<Longrightarrow> b \<noteq> NaN \<Longrightarrow> lt a b \<longleftrightarrow> a < b"
  by (cases a; cases b) (auto simp: less_energy_def)

lemma Fin_less_iff [simp]: "Fin x < Fin y \<longleftrightarrow> x < y"
  by (auto simp: less_energy_def)

lemma mask_select_map: "mask_select xs (map p xs) = filter p xs"
  by (induction xs) (simp_all add: mask_select_def)

lemma negative_atoms_filter:
  "negative_atoms atoms =
     filter (\<lambda>a. lt (get_potential_energy a) (Fin 0)) (sorted_by get_potential_energy atoms)"
  using mask_select_map [of "sorted_by get_potential_energy atoms" "\<lambda>a. lt (get_potential_energy a) (Fin 0)"]
  by (simp add: negative_atoms_def Let_def comp_def)

lemma mask_select_map_left: "mask_select (map f xs) keep = map f (mask_select xs keep)"
proof (induction xs arbitrary: keep)
  case Nil
  show ?case by (simp add: mask_select_def)
next
  case (Cons x xs)
  then show ?case by (cases keep) (simp_all add: mask_select_def)
qed

lemma map_zip_same: "map (\<lambda>(e, d). h e d) (zip es (map g es)) = map (\<lambda>e. h e (g e)) es"
  by (induction es) simp_all

text \<open>The function in terms of the array the sign filter leaves and the rounded energies.\<close>

lemma filter_local_minima_rounded:
  "filter_local_minima atoms sf =
     take_indexes (negative_atoms atoms)
       (unique_indexes (map (\<lambda>a. round_energy sf (get_potential_energy a)) (negative_atoms atoms)))"
proof -
  let ?kept = "negative_atoms atoms"
  let ?es = "map get_potential_energy ?kept"
  have "map (\<lambda>(energy, d). py_round energy d)
          (zip ?es (map (\<lambda>e. - (order_of_magnitude e + 1) + sf) ?es)) =
        map (\<lambda>e. py_round e (- (order_of_magnitude e + 1) + sf)) ?es"
    by (rule map_zip_same)
  then show ?thesis
    by (simp add: filter_local_minima_def negative_atoms_def Let_def mask_select_map_left
        comp_def round_energy_def)
qed

lemma set_insert_sorted: "set (insert_sorted key x ys) = insert x (set ys)"
  by (induction ys) auto

lemma set_sorted_by: "set (sorted_by key xs) = set xs"
  by (induction xs) (simp_all add: sorted_by_def set_insert_sorted)

lemma length_insert_sorted: "length (insert_sorted key x ys) = Suc (length ys)"
  by (induction ys) auto

lemma length_sorted_by: "length (sorted_by key xs) = length xs"
  by (induction xs) (simp_all add: sorted_by_def length_insert_sorted)

lemma insert_sorted_insort_key:
  "key x \<noteq> NaN \<Longrightarrow> NaN \<notin> key ` set ys \<Longrightarrow> insert_sorted key x ys = insort_key key x ys"
  by (induction ys) (auto simp: lt_iff_less)

lemma sorted_by_sort_key:
  "NaN \<notin> key ` set xs \<Longrightarrow> sorted_by key xs = sort_key key xs"
proof (induction xs)
  case Nil
  show ?case by (simp add: sorted_by_def)
next
  case (Cons x xs)
  then have "sorted_by key xs = sort_key key xs" by simp
  moreover have "NaN \<notin> key ` set (sort_key key xs)" using Cons.prems by simp
  moreover have "key x \<noteq> NaN" using Cons.prems by auto
  ultimately have "insert_sorted key x (sorted_by key xs) = insort_key key x (sort_key key xs)"
    by (simp add: insert_sorted_insort_key)
  then show ?case
    by (simp add: sorted_by_def sort_key_def)
qed

text \<open>A list that is one ascending run for \<^verbatim>\<open><\<close> is returned as it is.\<close>

lemma sorted_by_run:
  "(\<And>i. Suc i < length xs \<Longrightarrow> \<not> lt (key (xs ! Suc i)) (key (xs ! i))) \<Longrightarrow>
   sorted_by key xs = xs"
proof (induction xs)
  case Nil
  show ?case by (simp add: sorted_by_def)
next
  case (Cons x xs)
  have "sorted_by key xs = xs"
  proof (rule Cons.IH)
    fix i assume "Suc i < length xs"
    then show "\<not> lt (key (xs ! Suc i)) (key (xs ! i))"
      using Cons.prems [of "Suc i"] by simp
  qed
  then have step: "sorted_by key (x # xs) = insert_sorted key x xs"
    by (simp add: sorted_by_def)
  show ?case
  proof (cases xs)
    case Nil
    with step show ?thesis by simp
  next
    case (Cons y ys)
    with Cons.prems [of 0] have "\<not> lt (key y) (key x)" by simp
    with step Cons show ?thesis by simp
  qed
qed

lemma set_negative_atoms:
  "set (negative_atoms atoms) = {a \<in> set atoms. lt (get_potential_energy a) (Fin 0)}"
  by (auto simp: negative_atoms_filter set_sorted_by)

lemma first_index_less: "v \<in> set xs \<Longrightarrow> first_index v xs < length xs"
  by (induction xs) auto

lemma nth_first_index: "v \<in> set xs \<Longrightarrow> xs ! first_index v xs = v"
  by (induction xs) auto

lemma first_index_least: "i < first_index v xs \<Longrightarrow> xs ! i \<noteq> v"
proof (induction xs arbitrary: i)
  case Nil
  then show ?case by simp
next
  case (Cons x xs)
  then show ?case by (cases i) (auto split: if_splits)
qed

lemma first_index_nth_distinct:
  "distinct xs \<Longrightarrow> i < length xs \<Longrightarrow> first_index (xs ! i) xs = i"
proof (induction xs arbitrary: i)
  case Nil
  then show ?case by simp
next
  case (Cons x xs)
  then show ?case by (cases i) auto
qed

lemma unique_indexes_distinct_sorted:
  assumes "sorted rs" and "distinct rs"
  shows "unique_indexes rs = [0..<length rs]"
proof -
  have "sort (remdups rs) = rs"
    using assms by (simp add: sort_key_id_if_sorted)
  moreover have "map (\<lambda>v. first_index v rs) rs = [0..<length rs]"
    using assms(2) by (intro nth_equalityI) (simp_all add: first_index_nth_distinct)
  ultimately show ?thesis by (simp add: unique_indexes_def)
qed

lemma unique_indexes_bound: "i \<in> set (unique_indexes rs) \<Longrightarrow> i < length rs"
  by (auto simp: unique_indexes_def first_index_less)

lemma map_nth_unique_indexes: "map (\<lambda>i. rs ! i) (unique_indexes rs) = sort (remdups rs)"
proof -
  have "map (\<lambda>v. rs ! first_index v rs) (sort (remdups rs)) = map (\<lambda>v. v) (sort (remdups rs))"
    by (intro map_cong) (simp_all add: nth_first_index)
  then show ?thesis by (simp add: unique_indexes_def comp_def)
qed

lemma take_indexes_map:
  assumes "\<forall>i \<in> set indexes. i < length xs"
  shows "map f (take_indexes xs indexes) = map (\<lambda>i. map f xs ! i) indexes"
  using assms by (simp add: take_indexes_def)

lemma set_take_indexes:
  "\<forall>i \<in> set indexes. i < length xs \<Longrightarrow> set (take_indexes xs indexes) \<subseteq> set xs"
  by (auto simp: take_indexes_def)

text \<open>The rounded energies of the result are the distinct rounded energies, ascending.\<close>

lemma rounded_filter_local_minima:
  "map (\<lambda>a. round_energy sf (get_potential_energy a)) (filter_local_minima atoms sf) =
     sort (remdups (map (\<lambda>a. round_energy sf (get_potential_energy a)) (negative_atoms atoms)))"
proof -
  let ?kept = "negative_atoms atoms"
  let ?r = "\<lambda>a. round_energy sf (get_potential_energy a)"
  have "map ?r (take_indexes ?kept (unique_indexes (map ?r ?kept))) =
        map (\<lambda>i. map ?r ?kept ! i) (unique_indexes (map ?r ?kept))"
    using unique_indexes_bound [of _ "map ?r ?kept"] by (intro take_indexes_map) auto
  then show ?thesis
    by (simp add: filter_local_minima_rounded comp_def map_nth_unique_indexes)
qed

lemma set_filter_local_minima:
  "set (filter_local_minima atoms sf) \<subseteq> set (negative_atoms atoms)"
  unfolding filter_local_minima_rounded
  using unique_indexes_bound by (intro set_take_indexes) fastforce

section \<open>Facts about the result\<close>

lemma round_energy_mono:
  assumes "x \<le> y" and "y < 0" and "0 < sf"
  shows "round_energy sf (Fin x) \<le> round_energy sf (Fin y)"
  using round_sig_mono [OF assms] assms by (simp add: round_energy_Fin)

lemma negative_atoms_negative:
  "a \<in> set (negative_atoms atoms) \<Longrightarrow> \<exists>x. get_potential_energy a = Fin x \<and> x < 0"
  by (simp add: set_negative_atoms lt_zero_iff)

lemma filter_local_minima_negative:
  "a \<in> set (filter_local_minima atoms sf) \<Longrightarrow> \<exists>x. get_potential_energy a = Fin x \<and> x < 0"
  using set_filter_local_minima negative_atoms_negative by blast

lemma strict_sorted_rounded:
  "sorted_wrt (<) (map (\<lambda>a. round_energy sf (get_potential_energy a)) (filter_local_minima atoms sf))"
  by (simp add: rounded_filter_local_minima strict_sorted_iff)

lemma filter_local_minima_strict:
  assumes "0 < sf"
  shows "sorted_wrt (\<lambda>a b. get_potential_energy a < get_potential_energy b)
           (filter_local_minima atoms sf)"
proof -
  let ?out = "filter_local_minima atoms sf"
  let ?r = "\<lambda>a. round_energy sf (get_potential_energy a)"
  have "sorted_wrt (\<lambda>a b. ?r a < ?r b) ?out"
    using strict_sorted_rounded [of sf atoms] by (simp add: sorted_wrt_map)
  moreover have "get_potential_energy a < get_potential_energy b"
    if mem: "a \<in> set ?out" "b \<in> set ?out" and less: "?r a < ?r b" for a b
  proof -
    obtain x y where xy: "get_potential_energy a = Fin x" "x < 0"
      "get_potential_energy b = Fin y" "y < 0"
      using mem filter_local_minima_negative by blast
    have "x < y"
    proof (rule ccontr)
      assume "\<not> x < y"
      then have "round_energy sf (Fin y) \<le> round_energy sf (Fin x)"
        using xy assms by (intro round_energy_mono) simp_all
      with less xy show False by simp
    qed
    with xy show ?thesis by simp
  qed
  ultimately show ?thesis
    by (rule sorted_wrt_mono_rel [rotated])
qed

section \<open>The scenario of four structures\<close>

text \<open>
  Claim C1. The four structures with energies -1.001, -1.002, -1.02 and -2.5, filtered with
  two significant figures, give exactly two structures: the one of energy -2.5, then the one
  of energy -1.02.
\<close>

theorem scenario_two_figures:
  "filter_local_minima
     [\<lparr>geometry = 0, get_potential_energy = Fin (- 1.001)\<rparr>,
      \<lparr>geometry = 1, get_potential_energy = Fin (- 1.002)\<rparr>,
      \<lparr>geometry = 2, get_potential_energy = Fin (- 1.02)\<rparr>,
      \<lparr>geometry = 3, get_potential_energy = Fin (- 2.5)\<rparr>] 2 =
     [\<lparr>geometry = 3, get_potential_energy = Fin (- 2.5)\<rparr>,
      \<lparr>geometry = 2, get_potential_energy = Fin (- 1.02)\<rparr>]"
proof -
  have om: "floor_log10 (- (1001 / 1000)) = 0" "floor_log10 (- (501 / 500)) = 0"
    "floor_log10 (- (51 / 50)) = 0" "floor_log10 (- (5 / 2)) = 0"
    by (rule floor_log10_eqI; simp)+
  show ?thesis
    by (simp add: filter_local_minima_def negative_atoms_def sorted_by_def mask_select_def
        unique_indexes_def take_indexes_def Let_def om round_energy_def round_decimals_def rint_def)
qed

section \<open>The sign filter\<close>

text \<open>
  Claim C6. Every structure of the result has a potential energy below zero, a structure
  whose energy is zero or more is not in the result, the result is empty when every input
  energy is zero or more, and the empty list gives the empty list. This holds for every
  \<open>significant_figures\<close>, positive or not.
\<close>

theorem sign_filter_discards_nonnegative:
  "(\<forall>a \<in> set (filter_local_minima atoms sf). lt (get_potential_energy a) (Fin 0))
   \<and> (\<forall>a \<in> set atoms. le (Fin 0) (get_potential_energy a) \<longrightarrow> a \<notin> set (filter_local_minima atoms sf))
   \<and> ((\<forall>a \<in> set atoms. le (Fin 0) (get_potential_energy a)) \<longrightarrow> filter_local_minima atoms sf = [])
   \<and> filter_local_minima [] sf = []"
proof -
  have neg: "lt (get_potential_energy a) (Fin 0)" if "a \<in> set (filter_local_minima atoms sf)" for a
    using filter_local_minima_negative [OF that] by (auto simp: lt_zero_iff)
  have excl: "\<not> lt e (Fin 0)" if "le (Fin 0) e" for e
    using that by (cases e) simp_all
  have "a \<notin> set (filter_local_minima atoms sf)"
    if "le (Fin 0) (get_potential_energy a)" for a
    using neg [of a] excl [OF that] by blast
  moreover have "filter_local_minima atoms sf = []"
    if "\<forall>a \<in> set atoms. le (Fin 0) (get_potential_energy a)"
  proof -
    have "set (negative_atoms atoms) = {}"
      using that excl by (auto simp: set_negative_atoms)
    then show ?thesis
      using set_filter_local_minima [of atoms sf] by simp
  qed
  moreover have "filter_local_minima [] sf = []"
    using set_filter_local_minima [of "[]" sf] by (simp add: set_negative_atoms)
  ultimately show ?thesis using neg by blast
qed

theorem sign_filter_discards_nonnegative_witness:
  "filter_local_minima [\<lparr>geometry = 0, get_potential_energy = Fin 0\<rparr>,
      \<lparr>geometry = 1, get_potential_energy = Fin 2.5\<rparr>] 2 = []
   \<and> \<lparr>geometry = 1, get_potential_energy = Fin 2.5\<rparr> \<notin> set (filter_local_minima
      [\<lparr>geometry = 0, get_potential_energy = Fin (- 1)\<rparr>,
       \<lparr>geometry = 1, get_potential_energy = Fin 2.5\<rparr>] 2)"
  using sign_filter_discards_nonnegative [of "[\<lparr>geometry = 0, get_potential_energy = Fin 0\<rparr>,
      \<lparr>geometry = 1, get_potential_energy = Fin 2.5\<rparr>]" 2]
    sign_filter_discards_nonnegative [of "[\<lparr>geometry = 0, get_potential_energy = Fin (- 1)\<rparr>,
       \<lparr>geometry = 1, get_potential_energy = Fin 2.5\<rparr>]" 2]
  by simp

text \<open>
  Claim C10. NaN is not less than zero. The energies the sign filter lets through, which
  are the arguments of the logarithm and of the rounding, are never NaN and never zero; a
  structure whose energy is NaN is dropped by the sign filter and is not in the result.
\<close>

theorem nan_never_reaches_logarithm:
  "\<not> lt NaN (Fin 0)
   \<and> (\<forall>e \<in> set (map get_potential_energy (negative_atoms atoms)). e \<noteq> NaN \<and> e \<noteq> Fin 0)
   \<and> (\<forall>a \<in> set atoms. get_potential_energy a = NaN \<longrightarrow>
         a \<notin> set (negative_atoms atoms) \<and> a \<notin> set (filter_local_minima atoms sf))"
proof -
  have "e \<noteq> NaN \<and> e \<noteq> Fin 0" if "e \<in> set (map get_potential_energy (negative_atoms atoms))" for e
    using that negative_atoms_negative by fastforce
  moreover have "a \<notin> set (negative_atoms atoms) \<and> a \<notin> set (filter_local_minima atoms sf)"
    if "get_potential_energy a = NaN" for a
    using that negative_atoms_negative [of a atoms] filter_local_minima_negative [of a atoms sf]
    by auto
  ultimately show ?thesis by simp
qed

theorem nan_never_reaches_logarithm_witness:
  "\<lparr>geometry = 0, get_potential_energy = NaN\<rparr> \<notin> set (filter_local_minima
      [\<lparr>geometry = 0, get_potential_energy = NaN\<rparr>,
       \<lparr>geometry = 1, get_potential_energy = Fin (- 1)\<rparr>] 2)
   \<and> \<lparr>geometry = 0, get_potential_energy = NaN\<rparr> \<notin> set (negative_atoms
      [\<lparr>geometry = 0, get_potential_energy = NaN\<rparr>,
       \<lparr>geometry = 1, get_potential_energy = Fin (- 1)\<rparr>])"
  using nan_never_reaches_logarithm [of "[\<lparr>geometry = 0, get_potential_energy = NaN\<rparr>,
       \<lparr>geometry = 1, get_potential_energy = Fin (- 1)\<rparr>]" 2]
  by simp

section \<open>The order of the result\<close>



lemma sorted_by_strict:
  assumes "sorted_wrt (\<lambda>a b. key a < key b) xs" and "NaN \<notin> key ` set xs"
  shows "sorted_by key xs = xs"
proof -
  have "sorted_wrt (\<lambda>a b. key a \<le> key b) xs"
    using assms(1) by (rule sorted_wrt_mono_rel [rotated]) simp
  then have "sorted (map key xs)" by (simp add: sorted_wrt_map)
  then show ?thesis
    using assms(2) by (simp add: sorted_by_sort_key sort_key_id_if_sorted)
qed

section \<open>Idempotence\<close>

text \<open>
  Claim C7. For positive \<open>significant_figures\<close>, filtering the result again with the
  same \<open>significant_figures\<close> gives the same list: the same structures in the same
  order.
\<close>

theorem filter_local_minima_idempotent:
  assumes "0 < sf"
  shows "filter_local_minima (filter_local_minima atoms sf) sf = filter_local_minima atoms sf"
proof -
  let ?out = "filter_local_minima atoms sf"
  let ?r = "\<lambda>a. round_energy sf (get_potential_energy a)"
  have neg: "\<exists>x. get_potential_energy a = Fin x \<and> x < 0" if "a \<in> set ?out" for a
    using that by (rule filter_local_minima_negative)
  have "NaN \<notin> get_potential_energy ` set ?out"
    using neg by force
  then have "sorted_by get_potential_energy ?out = ?out"
    using filter_local_minima_strict [OF assms, of atoms] by (intro sorted_by_strict)
  moreover have "filter (\<lambda>a. lt (get_potential_energy a) (Fin 0)) ?out = ?out"
    using neg by (intro filter_True) (simp add: lt_zero_iff)
  ultimately have kept: "negative_atoms ?out = ?out"
    by (simp add: negative_atoms_filter)
  have "sorted (map ?r ?out)" and "distinct (map ?r ?out)"
    using strict_sorted_rounded [of sf atoms] by (simp_all add: strict_sorted_iff)
  then have "unique_indexes (map ?r ?out) = [0..<length ?out]"
    using unique_indexes_distinct_sorted [of "map ?r ?out"] by simp
  then have "filter_local_minima ?out sf = take_indexes ?out [0..<length ?out]"
    by (simp add: filter_local_minima_rounded [of ?out] kept comp_def)
  then show ?thesis
    by (simp add: take_indexes_def map_nth)
qed

theorem filter_local_minima_idempotent_witness:
  "(0::int) < 2 \<and> filter_local_minima (filter_local_minima
       [\<lparr>geometry = 0, get_potential_energy = Fin (- 1.001)\<rparr>,
        \<lparr>geometry = 1, get_potential_energy = Fin (- 1.002)\<rparr>,
        \<lparr>geometry = 2, get_potential_energy = Fin (- 1.02)\<rparr>,
        \<lparr>geometry = 3, get_potential_energy = Fin (- 2.5)\<rparr>] 2) 2 =
     filter_local_minima
       [\<lparr>geometry = 0, get_potential_energy = Fin (- 1.001)\<rparr>,
        \<lparr>geometry = 1, get_potential_energy = Fin (- 1.002)\<rparr>,
        \<lparr>geometry = 2, get_potential_energy = Fin (- 1.02)\<rparr>,
        \<lparr>geometry = 3, get_potential_energy = Fin (- 2.5)\<rparr>] 2"
  using filter_local_minima_idempotent [of 2 "[\<lparr>geometry = 0, get_potential_energy = Fin (- 1.001)\<rparr>,
        \<lparr>geometry = 1, get_potential_energy = Fin (- 1.002)\<rparr>,
        \<lparr>geometry = 2, get_potential_energy = Fin (- 1.02)\<rparr>,
        \<lparr>geometry = 3, get_potential_energy = Fin (- 2.5)\<rparr>]"]
  by simp

lemma sorted_negative_atoms:
  assumes "NaN \<notin> get_potential_energy ` set atoms"
  shows "sorted (map get_potential_energy (negative_atoms atoms))"
  using assms by (simp add: negative_atoms_filter sorted_by_sort_key sorted_filter)

lemma filter_local_minima_first:
  assumes "a \<in> set (filter_local_minima atoms sf)"
  shows "\<exists>i < length (negative_atoms atoms). negative_atoms atoms ! i = a \<and>
           (\<forall>j < i. round_energy sf (get_potential_energy (negative_atoms atoms ! j)) \<noteq>
                     round_energy sf (get_potential_energy a))"
proof -
  let ?kept = "negative_atoms atoms"
  let ?r = "\<lambda>a. round_energy sf (get_potential_energy a)"
  let ?rs = "map ?r ?kept"
  from assms obtain v where v: "v \<in> set ?rs" and a: "a = ?kept ! first_index v ?rs"
    by (auto simp: filter_local_minima_rounded take_indexes_def unique_indexes_def comp_def)
  let ?i = "first_index v ?rs"
  have i: "?i < length ?kept"
    using first_index_less [OF v] by simp
  have "?rs ! ?i = v"
    using v by (rule nth_first_index)
  with i have ra: "?r a = v" by (simp add: a)
  have "?r (?kept ! j) \<noteq> ?r a" if "j < ?i" for j
    using first_index_least [OF that] that i by (simp add: ra)
  with i a show ?thesis by blast
qed

section \<open>One structure for each rounded energy\<close>

text \<open>
  Claim C4, amended. The rounded energies of the result are pairwise distinct and are
  exactly the rounded energies of the input structures of negative energy, so one structure
  is kept for each of them. The structure kept is the first one with its rounded energy in
  the sorted array the sign filter leaves. When no energy of the input is NaN it has the
  lowest energy among the structures that share its rounded energy. With a NaN in the
  input the last part fails: \<^verbatim>\<open>sorted\<close> compares with \<^verbatim>\<open><\<close>, which is false against NaN,
  and may leave the numbers around it out of order.
\<close>

theorem one_per_rounded_value:
  "distinct (map (\<lambda>a. round_energy sf (get_potential_energy a)) (filter_local_minima atoms sf))
   \<and> set (map (\<lambda>a. round_energy sf (get_potential_energy a)) (filter_local_minima atoms sf)) =
       (\<lambda>a. round_energy sf (get_potential_energy a)) `
         {a \<in> set atoms. lt (get_potential_energy a) (Fin 0)}
   \<and> (\<forall>a \<in> set (filter_local_minima atoms sf).
         \<exists>i < length (negative_atoms atoms). negative_atoms atoms ! i = a \<and>
           (\<forall>j < i. round_energy sf (get_potential_energy (negative_atoms atoms ! j)) \<noteq>
                     round_energy sf (get_potential_energy a)))
   \<and> (NaN \<notin> get_potential_energy ` set atoms \<longrightarrow>
        (\<forall>a \<in> set (filter_local_minima atoms sf). \<forall>b \<in> set atoms.
           lt (get_potential_energy b) (Fin 0) \<and>
           round_energy sf (get_potential_energy b) = round_energy sf (get_potential_energy a) \<longrightarrow>
           le (get_potential_energy a) (get_potential_energy b)))"
proof (intro conjI ballI impI)
  let ?kept = "negative_atoms atoms"
  let ?r = "\<lambda>a. round_energy sf (get_potential_energy a)"
  show "distinct (map ?r (filter_local_minima atoms sf))"
    by (simp add: rounded_filter_local_minima)
  show "set (map ?r (filter_local_minima atoms sf)) =
      ?r ` {a \<in> set atoms. lt (get_potential_energy a) (Fin 0)}"
    by (simp add: rounded_filter_local_minima set_negative_atoms)
  show "\<exists>i < length ?kept. ?kept ! i = a \<and> (\<forall>j < i. ?r (?kept ! j) \<noteq> ?r a)"
    if "a \<in> set (filter_local_minima atoms sf)" for a
    using that by (rule filter_local_minima_first)
  show "le (get_potential_energy a) (get_potential_energy b)"
    if nan: "NaN \<notin> get_potential_energy ` set atoms"
      and a: "a \<in> set (filter_local_minima atoms sf)" and b: "b \<in> set atoms"
      and same: "lt (get_potential_energy b) (Fin 0) \<and> ?r b = ?r a" for a b
  proof -
    obtain i where i: "i < length ?kept" "?kept ! i = a" "\<forall>j < i. ?r (?kept ! j) \<noteq> ?r a"
      using filter_local_minima_first [OF a] by blast
    have "b \<in> set ?kept"
      using b same by (simp add: set_negative_atoms)
    then obtain j where j: "j < length ?kept" "?kept ! j = b"
      by (auto simp: in_set_conv_nth)
    have "i \<le> j"
      using i(3) j(2) same by (metis not_le_imp_less)
    then have "map get_potential_energy ?kept ! i \<le> map get_potential_energy ?kept ! j"
      using sorted_negative_atoms [OF nan] j(1) by (simp add: sorted_iff_nth_mono del: nth_map)
    then have "get_potential_energy a \<le> get_potential_energy b"
      using i j by simp
    moreover obtain x y where "get_potential_energy a = Fin x" "get_potential_energy b = Fin y"
      using a same filter_local_minima_negative [of a atoms sf] by (auto simp: lt_zero_iff)
    ultimately show ?thesis by simp
  qed
qed

theorem one_per_rounded_value_witness:
  "NaN \<notin> get_potential_energy ` set
       [\<lparr>geometry = 0, get_potential_energy = Fin (- 1.001)\<rparr>,
        \<lparr>geometry = 1, get_potential_energy = Fin (- 1.002)\<rparr>,
        \<lparr>geometry = 2, get_potential_energy = Fin (- 1.02)\<rparr>,
        \<lparr>geometry = 3, get_potential_energy = Fin (- 2.5)\<rparr>]
   \<and> distinct (map (\<lambda>a. round_energy 2 (get_potential_energy a)) (filter_local_minima
       [\<lparr>geometry = 0, get_potential_energy = Fin (- 1.001)\<rparr>,
        \<lparr>geometry = 1, get_potential_energy = Fin (- 1.002)\<rparr>,
        \<lparr>geometry = 2, get_potential_energy = Fin (- 1.02)\<rparr>,
        \<lparr>geometry = 3, get_potential_energy = Fin (- 2.5)\<rparr>] 2))"
  using one_per_rounded_value [of 2 "[\<lparr>geometry = 0, get_potential_energy = Fin (- 1.001)\<rparr>,
        \<lparr>geometry = 1, get_potential_energy = Fin (- 1.002)\<rparr>,
        \<lparr>geometry = 2, get_potential_energy = Fin (- 1.02)\<rparr>,
        \<lparr>geometry = 3, get_potential_energy = Fin (- 2.5)\<rparr>]"]
  by simp

theorem most_negative_counterexample:
  "filter_local_minima
     [\<lparr>geometry = 0, get_potential_energy = Fin (- 1.001)\<rparr>,
      \<lparr>geometry = 1, get_potential_energy = NaN\<rparr>,
      \<lparr>geometry = 2, get_potential_energy = Fin (- 1.002)\<rparr>] 2 =
     [\<lparr>geometry = 0, get_potential_energy = Fin (- 1.001)\<rparr>]
   \<and> round_energy 2 (Fin (- 1.002)) = round_energy 2 (Fin (- 1.001))
   \<and> lt (Fin (- 1.002)) (Fin (- 1.001))"
proof -
  have om: "floor_log10 (- (1001 / 1000)) = 0" "floor_log10 (- (501 / 500)) = 0"
    by (rule floor_log10_eqI; simp)+
  show ?thesis
    by (simp add: filter_local_minima_def negative_atoms_def sorted_by_def mask_select_def
        unique_indexes_def take_indexes_def Let_def om round_energy_def round_decimals_def rint_def)
qed

lemma length_filter_local_minima:
  "length (filter_local_minima atoms sf) =
     card ((\<lambda>a. round_energy sf (get_potential_energy a)) `
       {a \<in> set atoms. lt (get_potential_energy a) (Fin 0)})"
proof -
  let ?r = "\<lambda>a. round_energy sf (get_potential_energy a)"
  have "length (filter_local_minima atoms sf) = length (map ?r (filter_local_minima atoms sf))"
    by simp
  also have "\<dots> = card (set (map ?r (negative_atoms atoms)))"
    by (simp only: rounded_filter_local_minima length_sort length_remdups_card_conv)
  finally show ?thesis
    by (simp add: set_negative_atoms)
qed

section \<open>More significant figures\<close>

text \<open>
  Claim C3, amended. When the buckets of \<open>m\<close> figures refine those of \<open>n\<close> figures on the
  input, that is when two structures of negative energy with the same rounded energy at
  \<open>m\<close> figures also have the same rounded energy at \<open>n\<close> figures, the result for \<open>m\<close> is at
  least as long as the result for \<open>n\<close>. Without that condition the claim fails: rounding
  at \<open>m\<close> figures can merge two energies that rounding at fewer figures separates, as
  -1.4451 and -1.4549 at three and at two figures.
\<close>

theorem finer_figures_keep_more:
  assumes "\<forall>a \<in> set atoms. \<forall>b \<in> set atoms.
     lt (get_potential_energy a) (Fin 0) \<and> lt (get_potential_energy b) (Fin 0) \<and>
     round_energy m (get_potential_energy a) = round_energy m (get_potential_energy b) \<longrightarrow>
     round_energy n (get_potential_energy a) = round_energy n (get_potential_energy b)"
  shows "length (filter_local_minima atoms n) \<le> length (filter_local_minima atoms m)"
proof -
  let ?K = "{a \<in> set atoms. lt (get_potential_energy a) (Fin 0)}"
  let ?rm = "\<lambda>a. round_energy m (get_potential_energy a)"
  let ?rn = "\<lambda>a. round_energy n (get_potential_energy a)"
  let ?g = "\<lambda>v. ?rn (SOME a. a \<in> ?K \<and> ?rm a = v)"
  have "?rn a = ?g (?rm a)" if "a \<in> ?K" for a
  proof -
    have "(SOME b. b \<in> ?K \<and> ?rm b = ?rm a) \<in> ?K \<and> ?rm (SOME b. b \<in> ?K \<and> ?rm b = ?rm a) = ?rm a"
      using that by (intro someI [of "\<lambda>b. b \<in> ?K \<and> ?rm b = ?rm a" a]) simp
    with that assms show ?thesis by simp
  qed
  then have "?rn ` ?K \<subseteq> ?g ` (?rm ` ?K)"
    by blast
  then have "card (?rn ` ?K) \<le> card (?rm ` ?K)"
    by (intro surj_card_le) simp_all
  then show ?thesis
    by (simp only: length_filter_local_minima)
qed

theorem finer_figures_keep_more_witness:
  "length (filter_local_minima
       [\<lparr>geometry = 0, get_potential_energy = Fin (- 1.001)\<rparr>,
        \<lparr>geometry = 1, get_potential_energy = Fin (- 1.002)\<rparr>,
        \<lparr>geometry = 2, get_potential_energy = Fin (- 1.02)\<rparr>,
        \<lparr>geometry = 3, get_potential_energy = Fin (- 2.5)\<rparr>] 2)
   \<le> length (filter_local_minima
       [\<lparr>geometry = 0, get_potential_energy = Fin (- 1.001)\<rparr>,
        \<lparr>geometry = 1, get_potential_energy = Fin (- 1.002)\<rparr>,
        \<lparr>geometry = 2, get_potential_energy = Fin (- 1.02)\<rparr>,
        \<lparr>geometry = 3, get_potential_energy = Fin (- 2.5)\<rparr>] 3)"
proof -
  have om: "floor_log10 (- (1001 / 1000)) = 0" "floor_log10 (- (501 / 500)) = 0"
    "floor_log10 (- (51 / 50)) = 0" "floor_log10 (- (5 / 2)) = 0"
    by (rule floor_log10_eqI; simp)+
  show ?thesis
    by (rule finer_figures_keep_more) (simp add: om round_energy_def round_decimals_def rint_def Let_def)
qed

theorem finer_figures_counterexample:
  "(0::int) < 2 \<and> (2::int) < 3
   \<and> length (filter_local_minima
       [\<lparr>geometry = 0, get_potential_energy = Fin (- 1.4451)\<rparr>,
        \<lparr>geometry = 1, get_potential_energy = Fin (- 1.4549)\<rparr>] 3) = 1
   \<and> length (filter_local_minima
       [\<lparr>geometry = 0, get_potential_energy = Fin (- 1.4451)\<rparr>,
        \<lparr>geometry = 1, get_potential_energy = Fin (- 1.4549)\<rparr>] 2) = 2"
proof -
  have om: "floor_log10 (- (14451 / 10000)) = 0" "floor_log10 (- (14549 / 10000)) = 0"
    by (rule floor_log10_eqI; simp)+
  show ?thesis
    by (simp add: filter_local_minima_def negative_atoms_def sorted_by_def mask_select_def
        unique_indexes_def take_indexes_def Let_def om round_energy_def round_decimals_def rint_def)
qed

section \<open>The rounding rule and significant figures\<close>




section \<open>The trajectory handles\<close>

lemma write_all_handles:
  "write_all path atoms w = (res, w') \<Longrightarrow> open_handles w' = open_handles w"
  by (induction atoms arbitrary: w)
    (auto simp: trajectory_write_def split: sum.splits if_splits)

lemma write_all_error:
  "write_all path atoms w = (Some e, w') \<Longrightarrow> e = WriteError"
  by (induction atoms arbitrary: w)
    (auto simp: trajectory_write_def split: sum.splits if_splits)

lemma filter_local_minima_call_error:
  "filter_local_minima_call atoms sf = Inl e \<Longrightarrow> e = TypeError"
  by (auto simp: filter_local_minima_call_def split: pyval.splits if_splits)

text \<open>
  Claim C9, amended. When \<^verbatim>\<open>filter_trajectory\<close> returns normally, and when opening the input
  or the output fails, the handles open afterwards are those open before: both of its
  handles are closed. When the filtering raises, the handle of the input stays open; when a
  write raises, the handle of the output stays open. No statement of the driver releases a
  handle on the way of an error.
\<close>

theorem handles_after_filter_trajectory:
  assumes "filter_trajectory input significant_figures output w = (res, w')"
  shows "(res = None \<or> res = Some FileAccessError \<longrightarrow> open_handles w' = open_handles w)
    \<and> (res = Some TypeError \<longrightarrow> open_handles w' = input # open_handles w)
    \<and> (res = Some WriteError \<longrightarrow>
          open_handles w' = (case output of None \<Rightarrow> input | Some path \<Rightarrow> path) # open_handles w)"
proof (cases "open_read input w")
  case (Inl e)
  with assms show ?thesis
    by (auto simp: filter_trajectory_def open_read_def split: option.splits)
next
  case (Inr opened)
  obtain trajectory w1 where opened: "opened = (trajectory, w1)" by (cases opened)
  with Inr have w1: "open_handles w1 = input # open_handles w"
    by (auto simp: open_read_def split: option.splits)
  show ?thesis
  proof (cases "filter_local_minima_call trajectory significant_figures")
    case (Inl e)
    then have "e = TypeError" by (rule filter_local_minima_call_error)
    with assms Inr opened Inl w1 show ?thesis
      by (auto simp: filter_trajectory_def)
  next
    case filtered: (Inr atoms)
    let ?out = "case output of None \<Rightarrow> input | Some path \<Rightarrow> path"
    let ?w2 = "trajectory_close input w1"
    have w2: "open_handles ?w2 = open_handles w"
      by (simp add: trajectory_close_def w1)
    show ?thesis
    proof (cases "open_write ?out ?w2")
      case (Inl e)
      then have "e = FileAccessError"
        by (auto simp: open_write_def split: if_splits)
      with assms Inr opened filtered Inl w2 show ?thesis
        by (auto simp: filter_trajectory_def Let_def)
    next
      case written: (Inr w3)
      then have w3: "open_handles w3 = ?out # open_handles w"
        using w2 by (auto simp: open_write_def split: if_splits)
      obtain r w4 where all: "write_all ?out atoms w3 = (r, w4)"
        by (cases "write_all ?out atoms w3")
      then have w4: "open_handles w4 = ?out # open_handles w"
        using write_all_handles w3 by metis
      show ?thesis
      proof (cases r)
        case None
        with assms Inr opened filtered written all w4 show ?thesis
          by (auto simp: filter_trajectory_def Let_def trajectory_close_def)
      next
        case (Some e)
        with all have "e = WriteError" by (auto dest: write_all_error)
        with assms Inr opened filtered written all w4 Some show ?thesis
          by (auto simp: filter_trajectory_def Let_def)
      qed
    qed
  qed
qed

theorem handles_after_filter_trajectory_witness:
  "fst (filter_trajectory ''in.traj'' (PyInt 2) (Some ''out.traj'')
      \<lparr>files = [''in.traj'' \<mapsto> [\<lparr>geometry = 0, get_potential_energy = Fin 1\<rparr>]],
       writable = (\<lambda>path. True), free_space = 5, open_handles = []\<rparr>) = None
   \<and> open_handles (snd (filter_trajectory ''in.traj'' (PyInt 2) (Some ''out.traj'')
      \<lparr>files = [''in.traj'' \<mapsto> [\<lparr>geometry = 0, get_potential_energy = Fin 1\<rparr>]],
       writable = (\<lambda>path. True), free_space = 5, open_handles = []\<rparr>)) = []"
proof -
  let ?w = "\<lparr>files = [''in.traj'' \<mapsto> [\<lparr>geometry = 0, get_potential_energy = Fin 1\<rparr>]],
       writable = (\<lambda>path. True), free_space = 5, open_handles = []\<rparr>"
  let ?run = "filter_trajectory ''in.traj'' (PyInt 2) (Some ''out.traj'') ?w"
  have ok: "fst ?run = None"
    by (simp add: filter_trajectory_def open_read_def filter_local_minima_call_def
        filter_local_minima_def negative_atoms_def sorted_by_def mask_select_def
        unique_indexes_def take_indexes_def open_write_def trajectory_close_def Let_def)
  have "?run = (fst ?run, snd ?run)" by simp
  from handles_after_filter_trajectory [OF this] ok show ?thesis by simp
qed

theorem handle_left_open_counterexample:
  "filter_trajectory ''in.traj'' (PyStr ''out.traj'') None
      \<lparr>files = [''in.traj'' \<mapsto> [\<lparr>geometry = 0, get_potential_energy = Fin (- 1)\<rparr>]],
       writable = (\<lambda>path. True), free_space = 5, open_handles = []\<rparr> =
     (Some TypeError,
      \<lparr>files = [''in.traj'' \<mapsto> [\<lparr>geometry = 0, get_potential_energy = Fin (- 1)\<rparr>]],
       writable = (\<lambda>path. True), free_space = 5, open_handles = [''in.traj'']\<rparr>)
   \<and> fst (filter_trajectory ''in.traj'' (PyInt 2) None
      \<lparr>files = [''in.traj'' \<mapsto> [\<lparr>geometry = 0, get_potential_energy = Fin (- 1)\<rparr>]],
       writable = (\<lambda>path. True), free_space = 0, open_handles = []\<rparr>) = Some WriteError
   \<and> open_handles (snd (filter_trajectory ''in.traj'' (PyInt 2) None
      \<lparr>files = [''in.traj'' \<mapsto> [\<lparr>geometry = 0, get_potential_energy = Fin (- 1)\<rparr>]],
       writable = (\<lambda>path. True), free_space = 0, open_handles = []\<rparr>)) = [''in.traj'']"
proof -
  have om: "floor_log10 (- 1) = 0"
    by (rule floor_log10_eqI; simp)
  show ?thesis
    by (simp add: filter_trajectory_def open_read_def filter_local_minima_call_def
        filter_local_minima_def negative_atoms_def sorted_by_def mask_select_def
        unique_indexes_def take_indexes_def open_write_def trajectory_close_def
        trajectory_write_def Let_def om round_energy_def round_decimals_def rint_def)
qed

section \<open>The arguments \<^verbatim>\<open>main\<close> passes\<close>

text \<open>
  Claim C2. The claim wants the parsed output path bound to \<^verbatim>\<open>output\<close> and the parsed
  integer bound to \<^verbatim>\<open>significant_figures\<close>. The call in \<^verbatim>\<open>main\<close> is positional and lists
  the output before the significant figures, so each lands on the other's parameter.
\<close>

theorem main_swaps_arguments:
  "main \<lparr>arg_input = ''in.traj'', arg_output = Some ''out.traj'', arg_significant_figures = 3\<rparr> =
     \<lparr>bound_input = PyStr ''in.traj'', bound_significant_figures = PyStr ''out.traj'',
      bound_output = PyInt 3\<rparr>"
  by (simp add: main_def call_filter_trajectory_def optional_def)

end
